theory Spec2Isabelle
  imports Main
begin

section \<open>Values, documents and errors\<close>

text \<open>
  A Firestore document is a JavaScript object: a finite map from field names to values.
  Only the shape of the values matters here, the dashboard never computes with them.
\<close>

datatype jsval = JString string | JNumber int | JBool bool

type_synonym fields = "string \<rightharpoonup> jsval"

text \<open>
  The values a rejected promise can carry. The code never inspects them (the single
  \<open>catch\<close> of \<open>fetchUserData\<close> logs the value and shows a fixed message), so they are
  named after the failure kinds of the specification; \<open>InvalidArgument\<close> is the error
  Firestore throws for a path that is not a document path.
\<close>

datatype error = ProfileNotFound | TransientStoreError | LookupError | InvalidArgument

text \<open>
  The profile record read by the dashboard: \<open>profile.displayName\<close> and
  \<open>profile.credentials\<close>, either of which may be undefined.
\<close>

record profile =
  displayName :: "string option"
  credentials :: "string list option"

text \<open>The authenticated user of the auth context; only \<open>user.uid\<close> is read.\<close>

record user =
  uid :: string

text \<open>What the effect does to the outside world, in the order it does it.\<close>

type_synonym path = "string list"

datatype event =
    GetUserProfile string
  | GetDoc path
  | ConsoleError string error
  | ToastError string

section \<open>Document references\<close>

text \<open>\<open>String.prototype.split\<close> with a separator of one character.\<close>

fun splitOn :: "char \<Rightarrow> string \<Rightarrow> string list" where
  "splitOn c [] = [[]]"
| "splitOn c (x # xs) =
     (if x = c then [] # splitOn c xs
      else (case splitOn c xs of [] \<Rightarrow> [[x]] | s # ss \<Rightarrow> (x # s) # ss))"

text \<open>\<open>path.indexOf('//') >= 0\<close>\<close>

fun hasDoubleSlash :: "string \<Rightarrow> bool" where
  "hasDoubleSlash (a # b # cs) =
     ((a = CHR ''/'' \<and> b = CHR ''/'') \<or> hasDoubleSlash (b # cs))"
| "hasDoubleSlash cs = False"

text \<open>
  Firestore's \<open>ResourcePath.fromString\<close>: each component is refused when it contains
  \<open>//\<close>, and otherwise split at \<open>/\<close>, its empty segments dropped.
\<close>

fun fromString :: "string list \<Rightarrow> error + path" where
  "fromString [] = Inr []"
| "fromString (p # ps) =
     (if hasDoubleSlash p then Inl InvalidArgument
      else (case fromString ps of
              Inl e \<Rightarrow> Inl e
            | Inr segments \<Rightarrow>
                Inr (filter (\<lambda>segment. length segment > 0) (splitOn CHR ''/'' p) @ segments)))"

text \<open>
  \<open>doc(db, path, credId)\<close>: the reference to the document at \<open>path/credId\<close>. It throws
  when \<open>path\<close> is empty and when the segments are not an even number of them (a
  document path alternates collection and document names); so it does for the empty
  \<open>credId\<close>, and for \<open>x/y\<close>.
\<close>

definition doc :: "string \<Rightarrow> string \<Rightarrow> error + path" where
  "doc p credId =
     (if p = [] then Inl InvalidArgument
      else (case fromString [p, credId] of
              Inl e \<Rightarrow> Inl e
            | Inr segments \<Rightarrow>
                if even (length segments) then Inr segments else Inl InvalidArgument))"

text \<open>The \<open>id\<close> of a reference is the last segment of its path.\<close>

definition ref_id :: "path \<Rightarrow> string" where
  "ref_id p = (if p = [] then [] else last p)"

section \<open>The document store\<close>

text \<open>
  The database, as \<open>getDoc\<close> sees it during one run: for each document path the read
  either rejects (\<open>Inl\<close>), or settles with a snapshot of an absent document
  (\<open>Inr None\<close>) or of an existing one (\<open>Inr (Some data)\<close>).
\<close>

type_synonym store = "path \<Rightarrow> error + fields option"

record snapshot =
  snap_id :: string
  snap_data :: "fields option"

text \<open>
  \<open>getDoc(ref)\<close>: the snapshot carries the \<open>id\<close> of the reference; \<open>exists()\<close> tells
  whether there is a document and \<open>data()\<close> returns its fields.
\<close>

definition getDoc :: "store \<Rightarrow> path \<Rightarrow> error + snapshot" where
  "getDoc s r =
     (case s r of
        Inl e \<Rightarrow> Inl e
      | Inr d \<Rightarrow> Inr \<lparr>snap_id = ref_id r, snap_data = d\<rparr>)"

definition snap_exists :: "snapshot \<Rightarrow> bool" where
  "snap_exists credDoc = (snap_data credDoc \<noteq> None)"

text \<open>
  The object literal \<open>{ id: credDoc.id, ...credDoc.data() }\<close>: the \<open>id\<close> property is
  written first and the spread of the document data comes after it, so a field of the
  data named \<open>id\<close> replaces it.
\<close>

definition credentialRecord :: "string \<Rightarrow> fields \<Rightarrow> fields" where
  "credentialRecord docId data = [''id'' \<mapsto> JString docId] ++ data"

text \<open>
  The asynchronous arrow function mapped over \<open>profile.credentials\<close>, with the reads it
  issues. A throw of \<open>doc\<close> rejects the promise before any read is issued; otherwise one
  read is issued, and the promise rejects when the read rejects and yields the record or
  \<open>null\<close> when it settles.
\<close>

definition lookupCredential :: "store \<Rightarrow> string \<Rightarrow> event list \<times> (error + fields option)" where
  "lookupCredential s credId =
     (case doc ''credentials'' credId of
        Inl e \<Rightarrow> ([], Inl e)
      | Inr r \<Rightarrow>
          ([GetDoc r],
           (case getDoc s r of
              Inl e \<Rightarrow> Inl e
            | Inr credDoc \<Rightarrow>
                Inr (if snap_exists credDoc
                     then map_option (credentialRecord (snap_id credDoc)) (snap_data credDoc)
                     else None))))"

text \<open>
  \<open>Promise.all\<close>: fulfilled with the values in the order of the input promises when all
  of them are fulfilled, rejected as soon as one of them is rejected. The reason of the
  rejection is the one of the promise that rejects first in time; the model reports the
  first in list order, and nothing below depends on which reason it is when several
  promises reject.
\<close>

fun promise_all :: "(error + 'a) list \<Rightarrow> error + 'a list" where
  "promise_all [] = Inr []"
| "promise_all (p # ps) =
     (case p of
        Inl e \<Rightarrow> Inl e
      | Inr v \<Rightarrow> (case promise_all ps of Inl e \<Rightarrow> Inl e | Inr vs \<Rightarrow> Inr (v # vs)))"

text \<open>\<open>fetchedCredentials.filter(cred => cred !== null)\<close>\<close>

fun filterNotNull :: "'a option list \<Rightarrow> 'a list" where
  "filterNotNull [] = []"
| "filterNotNull (None # cs) = filterNotNull cs"
| "filterNotNull (Some c # cs) = c # filterNotNull cs"

text \<open>
  The credential aggregation of \<open>fetchUserData\<close>: map the lookup over the ids, which
  starts every one of them, await \<open>Promise.all\<close>, drop the nulls. The result comes with
  the reads the lookups issued.
\<close>

definition resolveCredentials :: "store \<Rightarrow> string list \<Rightarrow> event list \<times> (error + fields list)" where
  "resolveCredentials s ids =
     (let credentialPromises = map (lookupCredential s) ids
      in (concat (map fst credentialPromises),
          (case promise_all (map snd credentialPromises) of
             Inl e \<Rightarrow> Inl e
           | Inr fetchedCredentials \<Rightarrow> Inr (filterNotNull fetchedCredentials))))"

section \<open>The student dashboard\<close>

text \<open>
  The component state: \<open>userProfile\<close>, \<open>activeTab\<close> and \<open>credentials\<close>. The last field
  is called \<open>credentialsState\<close> here, \<open>credentials\<close> being the field of the profile.
\<close>

record dashboard =
  userProfile :: "profile option"
  activeTab :: string
  credentialsState :: "fields list"

definition initialDashboard :: dashboard where
  "initialDashboard = \<lparr>userProfile = None, activeTab = ''received'', credentialsState = []\<rparr>"

text \<open>
  The environment of the effect: the profile service \<open>getUserProfile\<close>, which is imported
  from \<open>services/userService\<close> and may settle with a profile, with \<open>null\<close> or reject, and
  the database.
\<close>

record env =
  getUserProfile :: "string \<Rightarrow> error + profile option"
  db :: store

text \<open>The \<open>catch\<close> block of \<open>fetchUserData\<close>.\<close>

definition catchBlock :: "error \<Rightarrow> event list" where
  "catchBlock err =
     [ConsoleError ''Error fetching user data:'' err,
      ToastError ''Failed to load credentials'']"

text \<open>
  The ids behind \<open>profile?.credentials?.length > 0\<close>: a null profile or an undefined
  list compares as false, like the empty list.
\<close>

definition profileCredentials :: "profile option \<Rightarrow> string list" where
  "profileCredentials p =
     (case p of
        None \<Rightarrow> []
      | Some pr \<Rightarrow> (case credentials pr of None \<Rightarrow> [] | Some ids \<Rightarrow> ids))"

text \<open>
  \<open>fetchUserData\<close>, run to completion from a component state: the state it leaves and
  the events it caused.
\<close>

definition fetchUserData :: "env \<Rightarrow> user option \<Rightarrow> dashboard \<Rightarrow> dashboard \<times> event list" where
  "fetchUserData ev usr st =
     (case usr of
        None \<Rightarrow> (st, [])
      | Some u \<Rightarrow>
          (case getUserProfile ev (uid u) of
             Inl err \<Rightarrow> (st, GetUserProfile (uid u) # catchBlock err)
           | Inr prof \<Rightarrow>
               (let st1 = st\<lparr>userProfile := prof\<rparr>;
                    ids = profileCredentials prof
                in if length ids > 0 then
                     (case resolveCredentials (db ev) ids of
                        (reads, Inl err) \<Rightarrow>
                          (st1, GetUserProfile (uid u) # reads @ catchBlock err)
                      | (reads, Inr creds) \<Rightarrow>
                          (st1\<lparr>credentialsState := creds\<rparr>, GetUserProfile (uid u) # reads))
                   else (st1, [GetUserProfile (uid u)]))))"

text \<open>The notifications among the events, and the reads among them.\<close>

fun toasts :: "event list \<Rightarrow> string list" where
  "toasts [] = []"
| "toasts (ToastError m # es) = m # toasts es"
| "toasts (e # es) = toasts es"

fun lookups :: "event list \<Rightarrow> path list" where
  "lookups [] = []"
| "lookups (GetDoc r # es) = r # lookups es"
| "lookups (e # es) = lookups es"

text \<open>
  What the page shows of the state: the name in the welcome banner
  (\<open>userProfile?.displayName || 'Student'\<close>) and whether the credentials panel shows
  the "No credentials found" line (\<open>credentials.length > 0\<close> is false).
\<close>

definition welcomeName :: "dashboard \<Rightarrow> string" where
  "welcomeName st =
     (case userProfile st of
        None \<Rightarrow> ''Student''
      | Some p \<Rightarrow>
          (case displayName p of
             None \<Rightarrow> ''Student''
           | Some n \<Rightarrow> if n = [] then ''Student'' else n))"

definition noCredentialsFound :: "dashboard \<Rightarrow> bool" where
  "noCredentialsFound st = (\<not> length (credentialsState st) > 0)"


section \<open>What a lookup refers to\<close>

text \<open>
  The path an id of the profile refers to in the credentials collection, the id of the
  document at that path, and the document the store holds there when the read settles.
  An id without \<open>/\<close> is a plain key: it refers to the document of that name.
\<close>

definition docPath :: "string \<Rightarrow> path" where
  "docPath credId =
     ''credentials'' # filter (\<lambda>segment. length segment > 0) (splitOn CHR ''/'' credId)"



definition plainKey :: "string \<Rightarrow> bool" where
  "plainKey credId = (credId \<noteq> [] \<and> CHR ''/'' \<notin> set credId)"


text \<open>
  A store made of the documents it holds and of the faults of one run: the reads that
  reject in that run, with their reasons. The documents are what persists from one run
  to the next.
\<close>

definition storeWith :: "(path \<rightharpoonup> fields) \<Rightarrow> (path \<Rightarrow> error option) \<Rightarrow> store" where
  "storeWith docs fault r = (case fault r of Some e \<Rightarrow> Inl e | None \<Rightarrow> Inr (docs r))"

section \<open>The profile service\<close>

text \<open>
  Modelled from the spec: \<open>getUserProfile\<close> of \<open>services/userService\<close>, whose source is
  not among the source files at hand. The specification gives its contract as
  \<open>resolveProfile(userId) -> UserProfile | fails with NotFound/TransientError\<close>: a
  profile that does not exist is the permanent failure \<open>ProfileNotFound\<close>, a store that
  cannot be reached is the transient failure. The collection of profiles and whether
  the store can be reached are the parameters.
\<close>

definition resolveProfile :: "(string \<rightharpoonup> profile) \<Rightarrow> bool \<Rightarrow> string \<Rightarrow> error + profile option" where
  "resolveProfile profiles reachable userId =
     (if \<not> reachable then Inl TransientStoreError
      else (case profiles userId of
              None \<Rightarrow> Inl ProfileNotFound
            | Some p \<Rightarrow> Inr (Some p)))"

section \<open>The credential upload form\<close>

text \<open>The component state of \<open>CredentialUpload\<close>: \<open>step\<close>, \<open>uploading\<close>, \<open>preview\<close>.\<close>

record upload =
  step :: nat
  uploading :: bool
  preview :: "string option"

definition initialUpload :: upload where
  "initialUpload = \<lparr>step = 1, uploading = False, preview = None\<rparr>"

text \<open>
  What the form holds when the submit event \<open>e\<close> is dispatched: the value of the
  credential type select (the empty string is the "Select type" placeholder), the
  student name and the attached file, if any.
\<close>

record submission =
  credentialType :: string
  studentName :: string
  document :: "string option"

text \<open>
  The statements of \<open>handleSubmit\<close>, one action each: \<open>e.preventDefault()\<close>,
  \<open>setUploading(true)\<close>, the awaited timer of 2000 ms, \<open>setUploading(false)\<close>,
  \<open>setStep(2)\<close>. The event is used for \<open>preventDefault\<close> only.
\<close>

datatype action = PreventDefault | SetUploading bool | Await nat | SetStep nat

definition handleSubmit :: "submission \<Rightarrow> action list" where
  "handleSubmit e = [PreventDefault, SetUploading True, Await 2000, SetUploading False, SetStep 2]"

fun perform :: "action \<Rightarrow> upload \<Rightarrow> upload" where
  "perform PreventDefault st = st"
| "perform (SetUploading b) st = st\<lparr>uploading := b\<rparr>"
| "perform (Await ms) st = st"
| "perform (SetStep n) st = st\<lparr>step := n\<rparr>"

fun isAwait :: "action \<Rightarrow> bool" where
  "isAwait (Await ms) = True"
| "isAwait a = False"

text \<open>
  The state of the component while \<open>handleSubmit\<close> is suspended at its \<open>await\<close>, and
  the state it leaves when it has run to its end.
\<close>

definition submitting :: "submission \<Rightarrow> upload \<Rightarrow> upload" where
  "submitting e st = fold perform (takeWhile (\<lambda>a. \<not> isAwait a) (handleSubmit e)) st"

definition submitted :: "submission \<Rightarrow> upload \<Rightarrow> upload" where
  "submitted e st = fold perform (handleSubmit e) st"

text \<open>
  \<open><form onSubmit={handleSubmit}>\<close>: the form is rendered at step 1 only, its submit
  button is disabled while \<open>uploading\<close>, the select and the text input carry
  \<open>required\<close>, the file input does not. The browser dispatches the submit event only
  when the button is enabled and every required control has a value; otherwise nothing
  reaches the component.
\<close>

definition formSubmit :: "submission \<Rightarrow> upload \<Rightarrow> upload" where
  "formSubmit e st =
     (if step st = 1 \<and> \<not> uploading st \<and> credentialType e \<noteq> [] \<and> studentName e \<noteq> []
      then submitted e st
      else st)"

section \<open>Example stores and environments\<close>

definition degreeDoc :: fields where
  "degreeDoc = [''type'' \<mapsto> JString ''degree'']"

text \<open>Scenario A: the credentials collection holds \<open>c1\<close> and nothing else.\<close>

definition docsA :: "path \<rightharpoonup> fields" where
  "docsA = [[''credentials'', ''c1''] \<mapsto> degreeDoc]"

definition noFault :: "path \<Rightarrow> error option" where
  "noFault r = None"


definition storeA :: store where
  "storeA = storeWith docsA noFault"






definition profileU1 :: profile where
  "profileU1 = \<lparr>displayName = Some ''Ada'', credentials = Some [''c1'', ''c2'']\<rparr>"

definition profileU2 :: profile where
  "profileU2 = \<lparr>displayName = None, credentials = Some []\<rparr>"

definition profilesColl :: "string \<rightharpoonup> profile" where
  "profilesColl = [''u1'' \<mapsto> profileU1, ''u2'' \<mapsto> profileU2]"

definition envOf :: "bool \<Rightarrow> store \<Rightarrow> env" where
  "envOf reachable s = \<lparr>getUserProfile = resolveProfile profilesColl reachable, db = s\<rparr>"

text \<open>The state a run for \<open>u1\<close> against scenario A leaves on a freshly mounted page.\<close>

definition dashboardU1 :: dashboard where
  "dashboardU1 =
     \<lparr>userProfile = Some profileU1, activeTab = ''received'',
      credentialsState = [[''id'' \<mapsto> JString ''c1'', ''type'' \<mapsto> JString ''degree'']]\<rparr>"

section \<open>Auxiliary facts\<close>

lemma splitOn_plain: "c \<notin> set xs \<Longrightarrow> splitOn c xs = [xs]"
  by (induction xs) auto

lemma hasDoubleSlash_slash: "hasDoubleSlash cs \<Longrightarrow> CHR ''/'' \<in> set cs"
  by (induction cs rule: hasDoubleSlash.induct) auto

lemma fromString_credentials:
  "fromString [''credentials'', credId] =
     (if hasDoubleSlash credId then Inl InvalidArgument else Inr (docPath credId))"
  by (simp add: docPath_def)

lemma doc_credentials:
  "doc ''credentials'' credId =
     (if hasDoubleSlash credId \<or> odd (length (docPath credId)) then Inl InvalidArgument
      else Inr (docPath credId))"
  unfolding doc_def fromString_credentials by simp

lemma docPath_plain: "plainKey credId \<Longrightarrow> docPath credId = [''credentials'', credId]"
  by (simp add: plainKey_def docPath_def splitOn_plain)


lemma doc_plain: "plainKey credId \<Longrightarrow> doc ''credentials'' credId = Inr [''credentials'', credId]"
proof -
  assume p: "plainKey credId"
  then have "\<not> hasDoubleSlash credId"
    using hasDoubleSlash_slash by (auto simp: plainKey_def)
  with p show ?thesis
    by (simp add: doc_credentials docPath_plain)
qed



lemma lookupCredential_plain:
  "plainKey credId \<Longrightarrow>
   lookupCredential s credId =
     ([GetDoc [''credentials'', credId]],
      (case s [''credentials'', credId] of
         Inl e \<Rightarrow> Inl e
       | Inr d \<Rightarrow> Inr (map_option (credentialRecord credId) d)))"
  by (cases "s [''credentials'', credId]")
     (simp_all add: lookupCredential_def doc_plain getDoc_def snap_exists_def ref_id_def)















lemma lookups_append: "lookups (es @ fs) = lookups es @ lookups fs"
  by (induction es rule: lookups.induct) simp_all




lemma lookups_catchBlock: "lookups (catchBlock err) = []"
  by (simp add: catchBlock_def)


lemma plainKey_c1: "plainKey ''c1''" and plainKey_c2: "plainKey ''c2''"
  and plainKey_c3: "plainKey ''c3''"
  by (simp_all add: plainKey_def)

lemma record_c1: "credentialRecord ''c1'' degreeDoc = [''id'' \<mapsto> JString ''c1'', ''type'' \<mapsto> JString ''degree'']"
  by (simp add: credentialRecord_def degreeDoc_def)

lemma resolve_storeA:
  "resolveCredentials storeA [''c1'', ''c2''] =
     ([GetDoc [''credentials'', ''c1''], GetDoc [''credentials'', ''c2'']],
      Inr [[''id'' \<mapsto> JString ''c1'', ''type'' \<mapsto> JString ''degree'']])"
  by (simp add: resolveCredentials_def lookupCredential_plain plainKey_c1 plainKey_c2
        storeA_def storeWith_def docsA_def noFault_def record_c1)


lemma profile_u1: "getUserProfile (envOf True s) ''u1'' = Inr (Some profileU1)"
  by (simp add: envOf_def resolveProfile_def profilesColl_def)

lemma profile_u2: "getUserProfile (envOf True s) ''u2'' = Inr (Some profileU2)"
  by (simp add: envOf_def resolveProfile_def profilesColl_def)

lemma run_u1_storeA:
  "fetchUserData (envOf True storeA) (Some \<lparr>uid = ''u1''\<rparr>) initialDashboard =
     (dashboardU1,
      [GetUserProfile ''u1'', GetDoc [''credentials'', ''c1''], GetDoc [''credentials'', ''c2'']])"
proof -
  have d: "db (envOf True storeA) = storeA"
    by (simp add: envOf_def)
  show ?thesis
    by (simp add: fetchUserData_def profile_u1 d profileCredentials_def profileU1_def
          resolve_storeA initialDashboard_def dashboardU1_def)
qed


section \<open>The signed-out dashboard\<close>

text \<open>
  C9, as stated, fails in its last part: with no user \<open>fetchUserData\<close> does nothing at
  all, so it does not bring the page to the signed-out default either. On the state a
  run for \<open>u1\<close> left, the profile and the credential of \<open>u1\<close> stay after the user has
  become null.
\<close>

theorem C9_counterexample:
  "fst (fetchUserData (envOf True storeA) (Some \<lparr>uid = ''u1''\<rparr>) initialDashboard) = dashboardU1
   \<and> userProfile (fst (fetchUserData (envOf True storeA) None dashboardU1)) = Some profileU1
   \<and> credentialsState (fst (fetchUserData (envOf True storeA) None dashboardU1)) =
       [[''id'' \<mapsto> JString ''c1'', ''type'' \<mapsto> JString ''degree'']]
   \<and> welcomeName (fst (fetchUserData (envOf True storeA) None dashboardU1)) = ''Ada''
   \<and> \<not> noCredentialsFound (fst (fetchUserData (envOf True storeA) None dashboardU1))"
  by (simp add: run_u1_storeA)
     (simp add: fetchUserData_def dashboardU1_def welcomeName_def noCredentialsFound_def
        profileU1_def)

text \<open>
  C9, amended. When the auth context supplies no user, \<open>fetchUserData\<close> does nothing: it
  calls neither the profile service nor the store, shows no notification and leaves the
  state exactly as it was. Run on the state the component is mounted with, that is the
  signed-out default: no profile (the banner greets "Student"), no credentials (the
  panel shows "No credentials found").
\<close>

theorem C9_no_user_no_effect:
  "fetchUserData ev None st = (st, [])
   \<and> fetchUserData ev None initialDashboard =
       (\<lparr>userProfile = None, activeTab = ''received'', credentialsState = []\<rparr>, [])
   \<and> welcomeName (fst (fetchUserData ev None initialDashboard)) = ''Student''
   \<and> noCredentialsFound (fst (fetchUserData ev None initialDashboard))"
  by (simp add: fetchUserData_def initialDashboard_def welcomeName_def noCredentialsFound_def)

section \<open>Aggregation of credentials\<close>

text \<open>
  C7, as stated, fails in its last part: for an empty credential list \<open>setCredentials\<close>
  is not called, so the credentials state is the empty list only if it was before. On
  the state a run for \<open>u1\<close> left, a run for \<open>u2\<close>, whose list is empty, keeps the
  credential of \<open>u1\<close> on the page.
\<close>

theorem C7_counterexample:
  "fst (fetchUserData (envOf True storeA) (Some \<lparr>uid = ''u1''\<rparr>) initialDashboard) = dashboardU1
   \<and> getUserProfile (envOf True storeA) ''u2'' = Inr (Some profileU2)
   \<and> credentials profileU2 = Some []
   \<and> credentialsState (fst (fetchUserData (envOf True storeA) (Some \<lparr>uid = ''u2''\<rparr>) dashboardU1)) =
       [[''id'' \<mapsto> JString ''c1'', ''type'' \<mapsto> JString ''degree'']]
   \<and> \<not> noCredentialsFound
          (fst (fetchUserData (envOf True storeA) (Some \<lparr>uid = ''u2''\<rparr>) dashboardU1))"
  by (simp add: run_u1_storeA profile_u2)
     (simp add: fetchUserData_def profile_u2 profileCredentials_def profileU2_def
        dashboardU1_def noCredentialsFound_def)

text \<open>
  C7, amended. For a profile whose credential list is empty the aggregation yields the
  empty sequence and no error, and \<open>fetchUserData\<close> stores the profile, issues no lookup,
  shows no notification and leaves the credentials state as it was: it is not reset.
  From the initial state it is the empty list, and the panel keeps showing
  "No credentials found".
\<close>

theorem C7_empty_credential_list:
  assumes "getUserProfile ev (uid u) = Inr (Some p)"
      and "credentials p = Some []"
  shows "resolveCredentials (db ev) [] = ([], Inr [])
         \<and> fetchUserData ev (Some u) st = (st\<lparr>userProfile := Some p\<rparr>, [GetUserProfile (uid u)])
         \<and> lookups (snd (fetchUserData ev (Some u) st)) = []
         \<and> toasts (snd (fetchUserData ev (Some u) st)) = []
         \<and> credentialsState (fst (fetchUserData ev (Some u) st)) = credentialsState st
         \<and> noCredentialsFound (fst (fetchUserData ev (Some u) initialDashboard))"
  using assms
  by (simp add: resolveCredentials_def fetchUserData_def profileCredentials_def
        noCredentialsFound_def initialDashboard_def)

theorem C7_empty_credential_list_witness:
  "getUserProfile (envOf True storeA) (uid \<lparr>uid = ''u2''\<rparr>) = Inr (Some profileU2)
   \<and> credentials profileU2 = Some []
   \<and> fetchUserData (envOf True storeA) (Some \<lparr>uid = ''u2''\<rparr>)
        (initialDashboard\<lparr>activeTab := ''shared''\<rparr>) =
       (initialDashboard\<lparr>userProfile := Some profileU2, activeTab := ''shared''\<rparr>,
        [GetUserProfile ''u2''])
   \<and> credentialsState
        (fst (fetchUserData (envOf True storeA) (Some \<lparr>uid = ''u2''\<rparr>)
                (initialDashboard\<lparr>activeTab := ''shared''\<rparr>))) = []"
proof -
  have h1: "getUserProfile (envOf True storeA) (uid \<lparr>uid = ''u2''\<rparr>) = Inr (Some profileU2)"
    by (simp add: profile_u2)
  have h2: "credentials profileU2 = Some []"
    by (simp add: profileU2_def)
  show ?thesis
    using h1 h2 C7_empty_credential_list [OF h1 h2, of "initialDashboard\<lparr>activeTab := ''shared''\<rparr>"]
    by (simp add: initialDashboard_def)
qed

text \<open>
  C5. Scenario A: the profile lists \<open>c1\<close> and \<open>c2\<close>, the store holds a document for
  \<open>c1\<close> and none for \<open>c2\<close>. The aggregation yields exactly one record, the one of
  \<open>c1\<close>: the fields of the stored document behind an \<open>id\<close> property holding \<open>c1\<close>.
  \<open>fetchUserData\<close> puts that one-element list into the credentials state after having
  issued both reads, without any notification.
\<close>

theorem C5_scenario_A:
  assumes "db ev [''credentials'', ''c1''] = Inr (Some data)"
      and "db ev [''credentials'', ''c2''] = Inr None"
      and "getUserProfile ev (uid u) = Inr (Some p)"
      and "credentials p = Some [''c1'', ''c2'']"
  shows "snd (resolveCredentials (db ev) [''c1'', ''c2'']) = Inr [[''id'' \<mapsto> JString ''c1''] ++ data]
         \<and> fetchUserData ev (Some u) st =
             (st\<lparr>userProfile := Some p,
                 credentialsState := [[''id'' \<mapsto> JString ''c1''] ++ data]\<rparr>,
              [GetUserProfile (uid u),
               GetDoc [''credentials'', ''c1''], GetDoc [''credentials'', ''c2'']])"
proof -
  have r: "resolveCredentials (db ev) [''c1'', ''c2''] =
             ([GetDoc [''credentials'', ''c1''], GetDoc [''credentials'', ''c2'']],
              Inr [[''id'' \<mapsto> JString ''c1''] ++ data])"
    using assms(1,2)
    by (simp add: resolveCredentials_def lookupCredential_plain plainKey_c1 plainKey_c2
          credentialRecord_def)
  show ?thesis
    using assms(3,4) by (simp add: r fetchUserData_def profileCredentials_def)
qed

theorem C5_scenario_A_witness:
  "db (envOf True storeA) [''credentials'', ''c1''] = Inr (Some [''type'' \<mapsto> JString ''degree''])
   \<and> db (envOf True storeA) [''credentials'', ''c2''] = Inr None
   \<and> getUserProfile (envOf True storeA) (uid \<lparr>uid = ''u1''\<rparr>) = Inr (Some profileU1)
   \<and> credentials profileU1 = Some [''c1'', ''c2'']
   \<and> snd (resolveCredentials (db (envOf True storeA)) [''c1'', ''c2'']) =
       Inr [[''id'' \<mapsto> JString ''c1'', ''type'' \<mapsto> JString ''degree'']]
   \<and> credentialsState
        (fst (fetchUserData (envOf True storeA) (Some \<lparr>uid = ''u1''\<rparr>) initialDashboard)) =
       [[''id'' \<mapsto> JString ''c1'', ''type'' \<mapsto> JString ''degree'']]"
proof -
  have h1: "db (envOf True storeA) [''credentials'', ''c1''] =
              Inr (Some [''type'' \<mapsto> JString ''degree''])"
    by (simp add: envOf_def storeA_def storeWith_def noFault_def docsA_def degreeDoc_def)
  have h2: "db (envOf True storeA) [''credentials'', ''c2''] = Inr None"
    by (simp add: envOf_def storeA_def storeWith_def noFault_def docsA_def)
  have h3: "getUserProfile (envOf True storeA) (uid \<lparr>uid = ''u1''\<rparr>) = Inr (Some profileU1)"
    by (simp add: profile_u1)
  have h4: "credentials profileU1 = Some [''c1'', ''c2'']"
    by (simp add: profileU1_def)
  show ?thesis
    using h1 h2 h3 h4 C5_scenario_A [OF h1 h2 h3 h4, of initialDashboard]
    by simp
qed







section \<open>Store faults\<close>







section \<open>Failures of the profile service\<close>

text \<open>
  C2, as stated, fails in its last part: \<open>fetchUserData\<close> has one \<open>catch\<close> for
  everything the profile service can reject with. For a user without a profile
  (\<open>ProfileNotFound\<close>) and for an unreachable store (the transient error) it leaves the
  same state and shows the same notification; the permanent failure is not rendered as a
  silent guest state, it takes the error path of the transient one.
\<close>

theorem C2_counterexample:
  "getUserProfile (envOf True storeA) ''missing'' = Inl ProfileNotFound
   \<and> getUserProfile (envOf False storeA) ''missing'' = Inl TransientStoreError
   \<and> fst (fetchUserData (envOf True storeA) (Some \<lparr>uid = ''missing''\<rparr>) initialDashboard) =
     fst (fetchUserData (envOf False storeA) (Some \<lparr>uid = ''missing''\<rparr>) initialDashboard)
   \<and> toasts (snd (fetchUserData (envOf True storeA) (Some \<lparr>uid = ''missing''\<rparr>) initialDashboard)) =
       [''Failed to load credentials'']
   \<and> toasts (snd (fetchUserData (envOf False storeA) (Some \<lparr>uid = ''missing''\<rparr>) initialDashboard)) =
       [''Failed to load credentials'']"
  by (simp add: fetchUserData_def envOf_def resolveProfile_def profilesColl_def catchBlock_def)

text \<open>
  C2, amended. Whatever the profile service rejects with, \<open>ProfileNotFound\<close> or a
  transient store error, \<open>fetchUserData\<close> takes the same single error path: it leaves
  the whole state as it was (on a first load the guest state, greeting "Student"; no
  crash), logs the error to the console and shows the one notification
  "Failed to load credentials". The failure kind is visible in the logged value only.
\<close>

theorem C2_single_error_path:
  assumes "getUserProfile ev (uid u) = Inl err"
  shows "fetchUserData ev (Some u) st =
           (st, [GetUserProfile (uid u),
                 ConsoleError ''Error fetching user data:'' err,
                 ToastError ''Failed to load credentials''])
         \<and> toasts (snd (fetchUserData ev (Some u) st)) = [''Failed to load credentials'']
         \<and> lookups (snd (fetchUserData ev (Some u) st)) = []
         \<and> welcomeName (fst (fetchUserData ev (Some u) initialDashboard)) = ''Student''"
  using assms
  by (simp add: fetchUserData_def catchBlock_def welcomeName_def initialDashboard_def)

theorem C2_single_error_path_witness:
  "getUserProfile (envOf True storeA) (uid \<lparr>uid = ''missing''\<rparr>) = Inl ProfileNotFound
   \<and> fetchUserData (envOf True storeA) (Some \<lparr>uid = ''missing''\<rparr>) initialDashboard =
       (initialDashboard,
        [GetUserProfile ''missing'',
         ConsoleError ''Error fetching user data:'' ProfileNotFound,
         ToastError ''Failed to load credentials''])"
proof -
  have h: "getUserProfile (envOf True storeA) (uid \<lparr>uid = ''missing''\<rparr>) = Inl ProfileNotFound"
    by (simp add: envOf_def resolveProfile_def profilesColl_def)
  show ?thesis
    using h C2_single_error_path [OF h, of initialDashboard] by simp
qed

section \<open>Submission of the upload form\<close>

text \<open>
  C3, as stated, fails: \<open>handleSubmit\<close> looks at no field. A form with a type and a
  student name but no attached document is submitted and reaches step 2, and so does
  \<open>handleSubmit\<close> run on a submission with every field empty.
\<close>

theorem C3_counterexample:
  "document \<lparr>credentialType = ''degree'', studentName = ''Ada'', document = None\<rparr> = None
   \<and> step initialUpload = 1
   \<and> step (formSubmit \<lparr>credentialType = ''degree'', studentName = ''Ada'', document = None\<rparr>
             initialUpload) = 2
   \<and> step (submitted \<lparr>credentialType = [], studentName = [], document = None\<rparr>
             initialUpload) = 2"
  by (simp add: formSubmit_def submitted_def handleSubmit_def initialUpload_def)

text \<open>
  C3, amended. The submission validates nothing itself and has no failure outcome: for
  every submission \<open>handleSubmit\<close> sets \<open>uploading\<close>, awaits the one timer of 2000 ms
  with \<open>uploading\<close> true and the step unchanged, and ends with \<open>uploading\<close> false and
  \<open>step\<close> 2, the success state, the preview untouched. What keeps a submission from
  reaching \<open>handleSubmit\<close> is the form alone: it is there at step 1 only, its button is
  disabled while \<open>uploading\<close>, and the type and student name controls are \<open>required\<close>;
  then nothing changes. The attached document is never looked at.
\<close>

theorem C3_submission_always_succeeds:
  "submitting e st = st\<lparr>uploading := True\<rparr>
   \<and> filter isAwait (handleSubmit e) = [Await 2000]
   \<and> submitted e st = st\<lparr>uploading := False, step := 2\<rparr>
   \<and> step (submitted e st) = 2
   \<and> formSubmit e st =
       (if step st = 1 \<and> \<not> uploading st \<and> credentialType e \<noteq> [] \<and> studentName e \<noteq> []
        then st\<lparr>uploading := False, step := 2\<rparr>
        else st)
   \<and> formSubmit (e\<lparr>document := d\<rparr>) st = formSubmit e st
   \<and> formSubmit e (submitting e' st) = submitting e' st"
  by (simp add: submitting_def submitted_def handleSubmit_def formSubmit_def)

end
